theory Spec2Isabelle
  imports Main "HOL-Library.Word"
begin

section \<open>The ptrace shim of the debugger\<close>

text \<open>
  The source file \<^verbatim>\<open>native/src/ptrace_wrapper.c\<close> exports five C functions, each a thin wrapper around one Linux system call:
  \<^verbatim>\<open>dbg_attach\<close>, \<^verbatim>\<open>dbg_detach\<close>, \<^verbatim>\<open>dbg_interrupt\<close> and \<^verbatim>\<open>dbg_continue\<close> around
  \<^verbatim>\<open>ptrace\<close>, and \<^verbatim>\<open>dbg_wait\<close> around \<^verbatim>\<open>waitpid\<close>. The wrappers are embedded as
  state-passing functions over an explicit world (the thread's \<^verbatim>\<open>errno\<close>, the caller's
  memory, the state of the operating system and the sequence of system calls made so far).
  What \<^verbatim>\<open>ptrace\<close> and \<^verbatim>\<open>waitpid\<close> answer is not part of the file: the operating system is a
  parameter of every definition, and every general theorem holds for all of them.
\<close>

subsection \<open>C types (Linux, LP64)\<close>

type_synonym c_int = "32 word"   \<comment> \<open>\<^verbatim>\<open>int\<close>\<close>
type_synonym c_long = "64 word"  \<comment> \<open>\<^verbatim>\<open>long\<close>\<close>
type_synonym pid_t = "32 word"   \<comment> \<open>\<^verbatim>\<open>pid_t\<close> is \<^verbatim>\<open>int\<close>\<close>
type_synonym ptr = "64 word"     \<comment> \<open>\<^verbatim>\<open>void *\<close>, \<^verbatim>\<open>int *\<close>\<close>

definition NULL :: ptr where
  "NULL = 0"

text \<open>The four \<^verbatim>\<open>ptrace\<close> requests the file uses.\<close>

datatype ptrace_request = PTRACE_SEIZE | PTRACE_DETACH | PTRACE_INTERRUPT | PTRACE_CONT

text \<open>A system call with its arguments, as the wrappers issue it.\<close>

datatype syscall =
    Ptrace ptrace_request pid_t ptr ptr   \<comment> \<open>\<^verbatim>\<open>ptrace(request, pid, addr, data)\<close>\<close>
  | Waitpid pid_t ptr c_int               \<comment> \<open>\<^verbatim>\<open>waitpid(pid, status, flags)\<close>\<close>

subsection \<open>The world around the shim\<close>

record 'k world =
  errno :: c_int             \<comment> \<open>the calling thread's \<^verbatim>\<open>errno\<close>\<close>
  mem :: "ptr \<Rightarrow> c_int"       \<comment> \<open>the caller's \<^verbatim>\<open>int\<close> cells, by address\<close>
  calls :: "syscall list"    \<comment> \<open>the system calls issued so far, oldest first\<close>
  kern :: 'k                 \<comment> \<open>the operating system's own state, opaque to the shim\<close>

text \<open>
  What the operating system answers to a call: the value the C library function returns,
  the value it stores to \<^verbatim>\<open>errno\<close> (if it stores one) and, for \<^verbatim>\<open>waitpid\<close>, the wait status
  it stores through the \<^verbatim>\<open>status\<close> pointer (if it stores one).
\<close>

record ptrace_reply =
  p_ret :: c_long
  p_errno :: "c_int option"

record wait_reply =
  w_ret :: pid_t
  w_errno :: "c_int option"
  w_status :: "c_int option"

record 'k os =
  on_ptrace :: "ptrace_request \<Rightarrow> pid_t \<Rightarrow> ptr \<Rightarrow> ptr \<Rightarrow> 'k \<Rightarrow> ptrace_reply \<times> 'k"
  on_waitpid :: "pid_t \<Rightarrow> ptr \<Rightarrow> c_int \<Rightarrow> 'k \<Rightarrow> wait_reply \<times> 'k"

text \<open>
  The two library functions the file calls. Each one hands the call to the operating
  system, records it in \<open>calls\<close>, and applies the answer to \<^verbatim>\<open>errno\<close> and to memory.
\<close>

definition ptrace ::
  "'k os \<Rightarrow> ptrace_request \<Rightarrow> pid_t \<Rightarrow> ptr \<Rightarrow> ptr \<Rightarrow> 'k world \<Rightarrow> c_long \<times> 'k world" where
  "ptrace os req pid addr data w =
     (let (rep, k) = on_ptrace os req pid addr data (kern w) in
        (p_ret rep,
         w\<lparr>errno := (case p_errno rep of None \<Rightarrow> errno w | Some e \<Rightarrow> e),
           calls := calls w @ [Ptrace req pid addr data],
           kern := k\<rparr>))"

definition waitpid ::
  "'k os \<Rightarrow> pid_t \<Rightarrow> ptr \<Rightarrow> c_int \<Rightarrow> 'k world \<Rightarrow> pid_t \<times> 'k world" where
  "waitpid os pid status flags w =
     (let (rep, k) = on_waitpid os pid status flags (kern w) in
        (w_ret rep,
         w\<lparr>errno := (case w_errno rep of None \<Rightarrow> errno w | Some e \<Rightarrow> e),
           mem := (case w_status rep of
                     None \<Rightarrow> mem w
                   | Some s \<Rightarrow> if status = NULL then mem w else (mem w)(status := s)),
           calls := calls w @ [Waitpid pid status flags],
           kern := k\<rparr>))"

subsection \<open>The five exported functions\<close>

text \<open>
  \<^verbatim>\<open>int dbg_attach(pid_t pid) {
      if (ptrace(PTRACE_SEIZE, pid, NULL, NULL) == -1) return -errno;
      return 0; }\<close>
\<close>

definition dbg_attach :: "'k os \<Rightarrow> pid_t \<Rightarrow> 'k world \<Rightarrow> c_int \<times> 'k world" where
  "dbg_attach os pid w =
     (let (r, w') = ptrace os PTRACE_SEIZE pid NULL NULL w in
        if r = - 1 then (- errno w', w') else (0, w'))"

text \<open>
  \<^verbatim>\<open>int dbg_detach(pid_t pid) {
      if (ptrace(PTRACE_DETACH, pid, NULL, NULL) == -1) return -errno;
      return 0; }\<close>
\<close>

definition dbg_detach :: "'k os \<Rightarrow> pid_t \<Rightarrow> 'k world \<Rightarrow> c_int \<times> 'k world" where
  "dbg_detach os pid w =
     (let (r, w') = ptrace os PTRACE_DETACH pid NULL NULL w in
        if r = - 1 then (- errno w', w') else (0, w'))"

text \<open>
  \<^verbatim>\<open>int dbg_interrupt(pid_t pid) {
      if (ptrace(PTRACE_INTERRUPT, pid, NULL, NULL) == -1) return -errno;
      return 0; }\<close>
\<close>

definition dbg_interrupt :: "'k os \<Rightarrow> pid_t \<Rightarrow> 'k world \<Rightarrow> c_int \<times> 'k world" where
  "dbg_interrupt os pid w =
     (let (r, w') = ptrace os PTRACE_INTERRUPT pid NULL NULL w in
        if r = - 1 then (- errno w', w') else (0, w'))"

text \<open>
  \<^verbatim>\<open>int dbg_continue(pid_t pid, int sig) {
      if (ptrace(PTRACE_CONT, pid, NULL, (void*)(long)sig) == -1) return -errno;
      return 0; }\<close>
  The cast \<^verbatim>\<open>(long)sig\<close> sign-extends the 32-bit \<^verbatim>\<open>int\<close> to 64 bits (\<open>scast\<close>); the cast to
  \<^verbatim>\<open>void *\<close> keeps the 64 bits.
\<close>

definition dbg_continue :: "'k os \<Rightarrow> pid_t \<Rightarrow> c_int \<Rightarrow> 'k world \<Rightarrow> c_int \<times> 'k world" where
  "dbg_continue os pid sig w =
     (let (r, w') = ptrace os PTRACE_CONT pid NULL (scast sig) w in
        if r = - 1 then (- errno w', w') else (0, w'))"

text \<open>
  \<^verbatim>\<open>int dbg_wait(pid_t pid, int *status, int flags) {
      pid_t result = waitpid(pid, status, flags);
      if (result == -1) return -errno;
      return (int)result; }\<close>
\<close>

definition dbg_wait :: "'k os \<Rightarrow> pid_t \<Rightarrow> ptr \<Rightarrow> c_int \<Rightarrow> 'k world \<Rightarrow> c_int \<times> 'k world" where
  "dbg_wait os pid status flags w =
     (let (result, w') = waitpid os pid status flags w in
        if result = - 1 then (- errno w', w') else (result, w'))"

subsection \<open>Constants of the Linux headers\<close>

text \<open>
  The file includes \<^verbatim>\<open><errno.h>\<close> and \<^verbatim>\<open><sys/wait.h>\<close>; the values below are the ones
  Linux gives there. They are used only to write down concrete runs.
\<close>

definition EPERM :: c_int where "EPERM = 1"
definition ESRCH :: c_int where "ESRCH = 3"
definition EINTR :: c_int where "EINTR = 4"
definition ECHILD :: c_int where "ECHILD = 10"
definition WNOHANG :: c_int where "WNOHANG = 1"

subsection \<open>A replayed operating system, for concrete runs\<close>

text \<open>
  For a concrete run the operating system replays a recorded session: its state is the
  list of answers still to be given, one list per system call, and each call consumes
  the next answer. With no answer left \<^verbatim>\<open>ptrace\<close> fails with \<^verbatim>\<open>ESRCH\<close> and \<^verbatim>\<open>waitpid\<close> with
  \<^verbatim>\<open>ECHILD\<close>.
\<close>

record script =
  ptrace_script :: "ptrace_reply list"
  wait_script :: "wait_reply list"

definition p_ok :: ptrace_reply where
  "p_ok = \<lparr>p_ret = 0, p_errno = None\<rparr>"

definition p_fail :: "c_int \<Rightarrow> ptrace_reply" where
  "p_fail e = \<lparr>p_ret = - 1, p_errno = Some e\<rparr>"

definition w_fail :: "c_int \<Rightarrow> wait_reply" where
  "w_fail e = \<lparr>w_ret = - 1, w_errno = Some e, w_status = None\<rparr>"

definition w_changed :: "pid_t \<Rightarrow> c_int \<Rightarrow> wait_reply" where
  "w_changed child st = \<lparr>w_ret = child, w_errno = None, w_status = Some st\<rparr>"

definition w_nochange :: wait_reply where
  "w_nochange = \<lparr>w_ret = 0, w_errno = None, w_status = None\<rparr>"

definition replay :: "script os" where
  "replay =
     \<lparr>on_ptrace = (\<lambda>req pid addr data k.
        case ptrace_script k of
          [] \<Rightarrow> (p_fail ESRCH, k)
        | r # rs \<Rightarrow> (r, k\<lparr>ptrace_script := rs\<rparr>)),
      on_waitpid = (\<lambda>pid status flags k.
        case wait_script k of
          [] \<Rightarrow> (w_fail ECHILD, k)
        | r # rs \<Rightarrow> (r, k\<lparr>wait_script := rs\<rparr>))\<rparr>"

text \<open>The world before a run: \<^verbatim>\<open>errno\<close> is 0, every cell holds 0, no call has been made.\<close>

definition world0 :: "ptrace_reply list \<Rightarrow> wait_reply list \<Rightarrow> script world" where
  "world0 ps ws =
     \<lparr>errno = 0, mem = (\<lambda>a. 0), calls = [],
      kern = \<lparr>ptrace_script = ps, wait_script = ws\<rparr>\<rparr>"

section \<open>The tracee controller above the shim\<close>

text \<open>
  The specification describes, above the five functions, a controller of one traced
  process (its sections 3, 4.1 and 7): a handle with a state, and the operations attach,
  interrupt, resume, waitForChange and detach, which drive the shim. The source file holds
  the shim only. The parts of the controller that claims C2, C3 and C4 speak about are
  written down here from the specification, on top of the functions embedded above.
\<close>

text \<open>
  Modelled from the spec: the type \<open>StopReason\<close> of the controller (section 3), which is
  not in the source.
\<close>

datatype stop_reason = GroupStop | Interrupt | Signal c_int | SyscallEntry | SyscallExit

text \<open>
  Modelled from the spec: the type \<open>TraceeState\<close> of the controller (section 3), which is
  not in the source.
\<close>

datatype tracee_state =
  Detached | Running | Stopped stop_reason | Interrupting | Exited c_int | Signaled c_int

text \<open>
  Modelled from the spec: the type \<open>ControlError\<close> of the controller, which is not in the
  source: \<open>InvalidState\<close> and \<open>ProcessGone\<close> (section 4.1), \<open>AlreadyTerminated\<close>
  (section 3), and an error of the operating system \<open>surfaced verbatim\<close> as the negated
  code the shim returned (section 7).
\<close>

datatype control_error = InvalidState | ProcessGone | AlreadyTerminated | OsError c_int

text \<open>
  Modelled from the spec: the \<open>TraceeHandle\<close> of the controller (section 3), which is not
  in the source: the id of the traced process, with its one current state.
\<close>

record tracee_handle =
  h_pid :: pid_t
  h_state :: tracee_state

text \<open>
  Modelled from the spec: the controller's mapping of the shim's error codes to its own
  errors (section 6), which is not in the source. \<^verbatim>\<open>ESRCH\<close>, the operating system's code
  for a process that does not exist, is \<open>ProcessGone\<close>.
\<close>

definition control_error_of :: "c_int \<Rightarrow> control_error" where
  "control_error_of rc = (if rc = - ESRCH then ProcessGone else OsError rc)"

text \<open>
  Modelled from the spec: the operation \<open>resume(handle, signal)\<close> of the controller
  (section 4.1), which is not in the source. It is \<open>valid only in Stopped; issues continue
  with optional pending signal, transitions to Running. Fails with InvalidState
  otherwise\<close>; on a handle that is \<open>Exited\<close> or \<open>Signaled\<close> it fails with
  \<open>AlreadyTerminated\<close>, as every operation does (section 3). A failure of the continue is
  reported to the caller (section 7).
\<close>

definition resume ::
  "'k os \<Rightarrow> tracee_handle \<Rightarrow> c_int \<Rightarrow> 'k world \<Rightarrow>
     (control_error + unit) \<times> tracee_handle \<times> 'k world" where
  "resume os h sig w =
     (case h_state h of
        Stopped reason \<Rightarrow>
          (let (rc, w') = dbg_continue os (h_pid h) sig w in
             if rc = 0 then (Inr (), h\<lparr>h_state := Running\<rparr>, w')
             else (Inl (control_error_of rc), h, w'))
      | Exited code \<Rightarrow> (Inl AlreadyTerminated, h, w)
      | Signaled s \<Rightarrow> (Inl AlreadyTerminated, h, w)
      | _ \<Rightarrow> (Inl InvalidState, h, w))"


text \<open>
  Modelled from the spec: one call of the wait primitive by \<open>waitForChange(handle,
  blocking)\<close> (section 4.1), which is not in the source: the shim's wait on the handle's
  process, with \<^verbatim>\<open>WNOHANG\<close> when the caller does not want to block.
\<close>

abbreviation wait_once ::
  "'k os \<Rightarrow> tracee_handle \<Rightarrow> bool \<Rightarrow> ptr \<Rightarrow> 'k world \<Rightarrow> c_int \<times> 'k world" where
  "wait_once os h blocking status w \<equiv>
     dbg_wait os (h_pid h) status (if blocking then 0 else WNOHANG) w"

text \<open>
  Modelled from the spec: the waiting of \<open>waitForChange(handle, blocking)\<close> (sections 4.1
  and 7), which is not in the source. The wait primitive is called; \<open>EINTR on the wait
  call is retried transparently\<close>; any other negated error code is the result (\<open>Inl\<close>), as
  is a pid (\<open>Inr\<close>). The loop has no bound on the number of retries, so the function is
  partial: \<open>None\<close> stands for a wait that is interrupted for ever. The translation of the
  raw status into an event, which the specification leaves to each platform (section 9),
  is not part of it.
\<close>

partial_function (option) waitForChange_wait ::
  "'k os \<Rightarrow> tracee_handle \<Rightarrow> bool \<Rightarrow> ptr \<Rightarrow> 'k world \<Rightarrow> ((c_int + pid_t) \<times> 'k world) option" where
  "waitForChange_wait os h blocking status w =
     (case wait_once os h blocking status w of
        (r, w') \<Rightarrow>
          if r = - EINTR then waitForChange_wait os h blocking status w'
          else if r <s 0 then Some (Inl r, w')
          else Some (Inr r, w'))"

section \<open>Properties\<close>

subsection \<open>Basic facts about the embedding\<close>

text \<open>
  An \<^verbatim>\<open>errno\<close> value that is positive as a signed \<^verbatim>\<open>int\<close> (every error code of the
  operating system is) has a strictly negative negation: \<^verbatim>\<open>-errno\<close> does not overflow.
\<close>

lemma neg_errno_sless:
  fixes e :: c_int
  assumes "0 <s e"
  shows "- e <s 0"
proof -
  from assms have pos: "0 < sint e" by (simp add: word_sless_alt)
  have up: "sint e < 2 ^ 31" using sint_lt [of e] by simp
  have "sint (- e) = signed_take_bit 31 (- sint e)" by (simp add: sint_word_ariths)
  also have "\<dots> = - sint e" using pos up by (intro signed_take_bit_int_eq_self) auto
  finally show ?thesis using pos by (simp add: word_sless_alt)
qed

lemma pos_errno_nonzero:
  fixes e :: c_int
  assumes "0 <s e"
  shows "e \<noteq> 0"
  using assms by auto

lemma ptrace_calls:
  "calls (snd (ptrace os req pid addr data w)) = calls w @ [Ptrace req pid addr data]"
  by (simp add: ptrace_def split: prod.splits)

lemma waitpid_calls:
  "calls (snd (waitpid os pid status flags w)) = calls w @ [Waitpid pid status flags]"
  by (simp add: waitpid_def split: prod.splits)

lemma waitpid_mem:
  "mem (snd (waitpid os pid status flags w)) =
     (case w_status (fst (on_waitpid os pid status flags (kern w))) of
        None \<Rightarrow> mem w
      | Some s \<Rightarrow> if status = NULL then mem w else (mem w)(status := s))"
  by (simp add: waitpid_def split: prod.splits)

lemma dbg_attach_eq:
  "dbg_attach os pid w =
     (if fst (ptrace os PTRACE_SEIZE pid NULL NULL w) = - 1
      then - errno (snd (ptrace os PTRACE_SEIZE pid NULL NULL w)) else 0,
      snd (ptrace os PTRACE_SEIZE pid NULL NULL w))"
  by (simp add: dbg_attach_def split: prod.splits)

lemma dbg_detach_eq:
  "dbg_detach os pid w =
     (if fst (ptrace os PTRACE_DETACH pid NULL NULL w) = - 1
      then - errno (snd (ptrace os PTRACE_DETACH pid NULL NULL w)) else 0,
      snd (ptrace os PTRACE_DETACH pid NULL NULL w))"
  by (simp add: dbg_detach_def split: prod.splits)

lemma dbg_interrupt_eq:
  "dbg_interrupt os pid w =
     (if fst (ptrace os PTRACE_INTERRUPT pid NULL NULL w) = - 1
      then - errno (snd (ptrace os PTRACE_INTERRUPT pid NULL NULL w)) else 0,
      snd (ptrace os PTRACE_INTERRUPT pid NULL NULL w))"
  by (simp add: dbg_interrupt_def split: prod.splits)

lemma dbg_continue_eq:
  "dbg_continue os pid sig w =
     (if fst (ptrace os PTRACE_CONT pid NULL (scast sig) w) = - 1
      then - errno (snd (ptrace os PTRACE_CONT pid NULL (scast sig) w)) else 0,
      snd (ptrace os PTRACE_CONT pid NULL (scast sig) w))"
  by (simp add: dbg_continue_def split: prod.splits)

lemma dbg_wait_eq:
  "dbg_wait os pid status flags w =
     (if fst (waitpid os pid status flags w) = - 1
      then - errno (snd (waitpid os pid status flags w))
      else fst (waitpid os pid status flags w),
      snd (waitpid os pid status flags w))"
  by (simp add: dbg_wait_def split: prod.splits)

lemmas replay_simps =
  ptrace_def waitpid_def replay_def world0_def p_ok_def p_fail_def w_fail_def
  w_changed_def w_nochange_def NULL_def EPERM_def ESRCH_def EINTR_def ECHILD_def WNOHANG_def

subsection \<open>Error codes of the four ptrace primitives\<close>

text \<open>
  Claim C1. For every pid, each of \<^verbatim>\<open>dbg_attach\<close>, \<^verbatim>\<open>dbg_detach\<close>, \<^verbatim>\<open>dbg_interrupt\<close> and
  \<^verbatim>\<open>dbg_continue\<close> returns 0 when its \<^verbatim>\<open>ptrace\<close> call succeeds (returns something other
  than -1), and the negated value of \<^verbatim>\<open>errno\<close> when the call fails (returns -1); that value
  is strictly negative, the operating system's error codes being positive. The result is
  never anything else: no other classification of errors happens in the shim.
\<close>

theorem shim_returns_zero_or_negated_errno:
  "(fst (ptrace os PTRACE_SEIZE pid NULL NULL w) \<noteq> - 1 \<longrightarrow>
      fst (dbg_attach os pid w) = 0) \<and>
   (fst (ptrace os PTRACE_SEIZE pid NULL NULL w) = - 1 \<longrightarrow>
      fst (dbg_attach os pid w) = - errno (snd (ptrace os PTRACE_SEIZE pid NULL NULL w))) \<and>
   (fst (ptrace os PTRACE_SEIZE pid NULL NULL w) = - 1 \<and>
    0 <s errno (snd (ptrace os PTRACE_SEIZE pid NULL NULL w)) \<longrightarrow>
      fst (dbg_attach os pid w) <s 0) \<and>
   (fst (ptrace os PTRACE_DETACH pid NULL NULL w) \<noteq> - 1 \<longrightarrow>
      fst (dbg_detach os pid w) = 0) \<and>
   (fst (ptrace os PTRACE_DETACH pid NULL NULL w) = - 1 \<longrightarrow>
      fst (dbg_detach os pid w) = - errno (snd (ptrace os PTRACE_DETACH pid NULL NULL w))) \<and>
   (fst (ptrace os PTRACE_DETACH pid NULL NULL w) = - 1 \<and>
    0 <s errno (snd (ptrace os PTRACE_DETACH pid NULL NULL w)) \<longrightarrow>
      fst (dbg_detach os pid w) <s 0) \<and>
   (fst (ptrace os PTRACE_INTERRUPT pid NULL NULL w) \<noteq> - 1 \<longrightarrow>
      fst (dbg_interrupt os pid w) = 0) \<and>
   (fst (ptrace os PTRACE_INTERRUPT pid NULL NULL w) = - 1 \<longrightarrow>
      fst (dbg_interrupt os pid w) =
        - errno (snd (ptrace os PTRACE_INTERRUPT pid NULL NULL w))) \<and>
   (fst (ptrace os PTRACE_INTERRUPT pid NULL NULL w) = - 1 \<and>
    0 <s errno (snd (ptrace os PTRACE_INTERRUPT pid NULL NULL w)) \<longrightarrow>
      fst (dbg_interrupt os pid w) <s 0) \<and>
   (fst (ptrace os PTRACE_CONT pid NULL (scast sig) w) \<noteq> - 1 \<longrightarrow>
      fst (dbg_continue os pid sig w) = 0) \<and>
   (fst (ptrace os PTRACE_CONT pid NULL (scast sig) w) = - 1 \<longrightarrow>
      fst (dbg_continue os pid sig w) =
        - errno (snd (ptrace os PTRACE_CONT pid NULL (scast sig) w))) \<and>
   (fst (ptrace os PTRACE_CONT pid NULL (scast sig) w) = - 1 \<and>
    0 <s errno (snd (ptrace os PTRACE_CONT pid NULL (scast sig) w)) \<longrightarrow>
      fst (dbg_continue os pid sig w) <s 0)"
  by (simp add: dbg_attach_eq dbg_detach_eq dbg_interrupt_eq dbg_continue_eq neg_errno_sless)

theorem shim_returns_zero_or_negated_errno_witness:
  "fst (dbg_attach replay 1234 (world0 [p_ok] [])) = 0 \<and>
   fst (dbg_detach replay 1234 (world0 [p_ok] [])) = 0 \<and>
   fst (dbg_interrupt replay 1234 (world0 [p_ok] [])) = 0 \<and>
   fst (dbg_continue replay 1234 0 (world0 [p_ok] [])) = 0 \<and>
   fst (ptrace replay PTRACE_SEIZE 1234 NULL NULL (world0 [p_fail EPERM] [])) = - 1 \<and>
   0 <s errno (snd (ptrace replay PTRACE_SEIZE 1234 NULL NULL (world0 [p_fail EPERM] []))) \<and>
   fst (dbg_attach replay 1234 (world0 [p_fail EPERM] [])) = - EPERM \<and>
   fst (dbg_attach replay 1234 (world0 [p_fail EPERM] [])) <s 0 \<and>
   fst (dbg_detach replay 1234 (world0 [p_fail ESRCH] [])) = - ESRCH \<and>
   fst (dbg_detach replay 1234 (world0 [p_fail ESRCH] [])) <s 0 \<and>
   fst (dbg_interrupt replay 1234 (world0 [p_fail ESRCH] [])) = - ESRCH \<and>
   fst (dbg_interrupt replay 1234 (world0 [p_fail ESRCH] [])) <s 0 \<and>
   fst (dbg_continue replay 1234 0 (world0 [p_fail ESRCH] [])) = - ESRCH \<and>
   fst (dbg_continue replay 1234 0 (world0 [p_fail ESRCH] [])) <s 0"
  using shim_returns_zero_or_negated_errno [of replay 1234 "world0 [p_ok] []" 0]
    shim_returns_zero_or_negated_errno [of replay 1234 "world0 [p_fail EPERM] []" 0]
    shim_returns_zero_or_negated_errno [of replay 1234 "world0 [p_fail ESRCH] []" 0]
  by (simp add: replay_simps word_sless_alt)

subsection \<open>What a wait call returns\<close>

text \<open>
  Claim C5. When \<^verbatim>\<open>waitpid\<close> succeeds, it returns a non-negative pid, and \<^verbatim>\<open>dbg_wait\<close>
  returns that same pid, so a non-negative value; the raw wait status the operating system
  stores arrives in the caller's cell, because \<^verbatim>\<open>dbg_wait\<close> hands the caller's \<^verbatim>\<open>status\<close>
  pointer to \<^verbatim>\<open>waitpid\<close> as it is and leaves memory as \<^verbatim>\<open>waitpid\<close> left it. When
  \<^verbatim>\<open>waitpid\<close> fails (returns -1), \<^verbatim>\<open>dbg_wait\<close> returns the negated \<^verbatim>\<open>errno\<close>.
\<close>

theorem dbg_wait_returns_pid_and_status:
  "(0 \<le>s fst (waitpid os pid status flags w) \<longrightarrow>
      fst (dbg_wait os pid status flags w) = fst (waitpid os pid status flags w) \<and>
      0 \<le>s fst (dbg_wait os pid status flags w)) \<and>
   (fst (waitpid os pid status flags w) \<noteq> - 1 \<longrightarrow>
      fst (dbg_wait os pid status flags w) = fst (waitpid os pid status flags w)) \<and>
   calls (snd (dbg_wait os pid status flags w)) = calls w @ [Waitpid pid status flags] \<and>
   mem (snd (dbg_wait os pid status flags w)) = mem (snd (waitpid os pid status flags w)) \<and>
   (w_status (fst (on_waitpid os pid status flags (kern w))) = Some s \<and> status \<noteq> NULL \<longrightarrow>
      mem (snd (dbg_wait os pid status flags w)) status = s) \<and>
   (fst (waitpid os pid status flags w) = - 1 \<longrightarrow>
      fst (dbg_wait os pid status flags w) = - errno (snd (waitpid os pid status flags w)))"
proof -
  have nonneg: "0 \<le>s r \<Longrightarrow> r \<noteq> - 1" for r :: pid_t
    by (auto simp: word_sle_eq)
  show ?thesis
    by (auto simp: dbg_wait_eq waitpid_calls waitpid_mem dest: nonneg)
qed

theorem dbg_wait_returns_pid_and_status_witness:
  "0 \<le>s fst (waitpid replay 1234 4096 0 (world0 [] [w_changed 1234 1407])) \<and>
   fst (dbg_wait replay 1234 4096 0 (world0 [] [w_changed 1234 1407])) = 1234 \<and>
   0 \<le>s fst (dbg_wait replay 1234 4096 0 (world0 [] [w_changed 1234 1407])) \<and>
   mem (snd (dbg_wait replay 1234 4096 0 (world0 [] [w_changed 1234 1407]))) 4096 = 1407 \<and>
   fst (waitpid replay 1234 4096 0 (world0 [] [w_fail ECHILD])) = - 1 \<and>
   fst (dbg_wait replay 1234 4096 0 (world0 [] [w_fail ECHILD])) = - ECHILD"
  using dbg_wait_returns_pid_and_status
          [of replay 1234 4096 0 "world0 [] [w_changed 1234 1407]" 1407]
        dbg_wait_returns_pid_and_status
          [of replay 1234 4096 0 "world0 [] [w_fail ECHILD]" 0]
  by (simp add: replay_simps word_sle_eq)

subsection \<open>The shim keeps no state\<close>

text \<open>
  Claim C7. Every call of the shim forwards exactly one system call: the world after the
  call is the world that system call left (the shim stores nothing of its own, neither in
  memory nor in \<^verbatim>\<open>errno\<close>), the sequence of system calls has grown by that one call, and
  the value returned depends only on the arguments and on the outcome of that call, its
  return value and \<^verbatim>\<open>errno\<close>: two calls with the same arguments whose system calls have
  the same outcome return the same value, in whatever worlds they are made.
\<close>

theorem shim_is_stateless_forwarding:
  fixes os :: "'k os" and os' :: "'j os"
  shows
  "snd (dbg_attach os pid w) = snd (ptrace os PTRACE_SEIZE pid NULL NULL w) \<and>
   snd (dbg_detach os pid w) = snd (ptrace os PTRACE_DETACH pid NULL NULL w) \<and>
   snd (dbg_interrupt os pid w) = snd (ptrace os PTRACE_INTERRUPT pid NULL NULL w) \<and>
   snd (dbg_continue os pid sig w) = snd (ptrace os PTRACE_CONT pid NULL (scast sig) w) \<and>
   snd (dbg_wait os pid status flags w) = snd (waitpid os pid status flags w) \<and>
   calls (snd (dbg_attach os pid w)) = calls w @ [Ptrace PTRACE_SEIZE pid NULL NULL] \<and>
   calls (snd (dbg_detach os pid w)) = calls w @ [Ptrace PTRACE_DETACH pid NULL NULL] \<and>
   calls (snd (dbg_interrupt os pid w)) = calls w @ [Ptrace PTRACE_INTERRUPT pid NULL NULL] \<and>
   calls (snd (dbg_continue os pid sig w)) =
     calls w @ [Ptrace PTRACE_CONT pid NULL (scast sig)] \<and>
   calls (snd (dbg_wait os pid status flags w)) = calls w @ [Waitpid pid status flags] \<and>
   (fst (ptrace os PTRACE_SEIZE pid NULL NULL w) =
      fst (ptrace os' PTRACE_SEIZE pid NULL NULL w') \<and>
    errno (snd (ptrace os PTRACE_SEIZE pid NULL NULL w)) =
      errno (snd (ptrace os' PTRACE_SEIZE pid NULL NULL w')) \<longrightarrow>
      fst (dbg_attach os pid w) = fst (dbg_attach os' pid w')) \<and>
   (fst (ptrace os PTRACE_DETACH pid NULL NULL w) =
      fst (ptrace os' PTRACE_DETACH pid NULL NULL w') \<and>
    errno (snd (ptrace os PTRACE_DETACH pid NULL NULL w)) =
      errno (snd (ptrace os' PTRACE_DETACH pid NULL NULL w')) \<longrightarrow>
      fst (dbg_detach os pid w) = fst (dbg_detach os' pid w')) \<and>
   (fst (ptrace os PTRACE_INTERRUPT pid NULL NULL w) =
      fst (ptrace os' PTRACE_INTERRUPT pid NULL NULL w') \<and>
    errno (snd (ptrace os PTRACE_INTERRUPT pid NULL NULL w)) =
      errno (snd (ptrace os' PTRACE_INTERRUPT pid NULL NULL w')) \<longrightarrow>
      fst (dbg_interrupt os pid w) = fst (dbg_interrupt os' pid w')) \<and>
   (fst (ptrace os PTRACE_CONT pid NULL (scast sig) w) =
      fst (ptrace os' PTRACE_CONT pid NULL (scast sig) w') \<and>
    errno (snd (ptrace os PTRACE_CONT pid NULL (scast sig) w)) =
      errno (snd (ptrace os' PTRACE_CONT pid NULL (scast sig) w')) \<longrightarrow>
      fst (dbg_continue os pid sig w) = fst (dbg_continue os' pid sig w')) \<and>
   (fst (waitpid os pid status flags w) = fst (waitpid os' pid status flags w') \<and>
    errno (snd (waitpid os pid status flags w)) =
      errno (snd (waitpid os' pid status flags w')) \<longrightarrow>
      fst (dbg_wait os pid status flags w) = fst (dbg_wait os' pid status flags w'))"
  by (simp add: dbg_attach_eq dbg_detach_eq dbg_interrupt_eq dbg_continue_eq dbg_wait_eq
        ptrace_calls waitpid_calls)

text \<open>
  A run: the same failing attach in a fresh world and in a world that has seen a wait
  before, with other contents of \<^verbatim>\<open>errno\<close> and memory. The result is the same.
\<close>

theorem shim_is_stateless_forwarding_witness:
  "fst (ptrace replay PTRACE_SEIZE 1234 NULL NULL (world0 [p_fail EPERM] [])) =
     fst (ptrace replay PTRACE_SEIZE 1234 NULL NULL
       \<lparr>errno = 4, mem = (\<lambda>a. 7), calls = [Waitpid 77 4096 0],
        kern = \<lparr>ptrace_script = [p_fail EPERM, p_ok], wait_script = []\<rparr>\<rparr>) \<and>
   errno (snd (ptrace replay PTRACE_SEIZE 1234 NULL NULL (world0 [p_fail EPERM] []))) =
     errno (snd (ptrace replay PTRACE_SEIZE 1234 NULL NULL
       \<lparr>errno = 4, mem = (\<lambda>a. 7), calls = [Waitpid 77 4096 0],
        kern = \<lparr>ptrace_script = [p_fail EPERM, p_ok], wait_script = []\<rparr>\<rparr>)) \<and>
   fst (dbg_attach replay 1234 (world0 [p_fail EPERM] [])) =
     fst (dbg_attach replay 1234
       \<lparr>errno = 4, mem = (\<lambda>a. 7), calls = [Waitpid 77 4096 0],
        kern = \<lparr>ptrace_script = [p_fail EPERM, p_ok], wait_script = []\<rparr>\<rparr>) \<and>
   calls (snd (dbg_attach replay 1234
       \<lparr>errno = 4, mem = (\<lambda>a. 7), calls = [Waitpid 77 4096 0],
        kern = \<lparr>ptrace_script = [p_fail EPERM, p_ok], wait_script = []\<rparr>\<rparr>)) =
     [Waitpid 77 4096 0, Ptrace PTRACE_SEIZE 1234 NULL NULL]"
  using shim_is_stateless_forwarding
    [of replay 1234 "world0 [p_fail EPERM] []" 0 4096 0 replay
        "\<lparr>errno = 4, mem = (\<lambda>a. 7), calls = [Waitpid 77 4096 0],
          kern = \<lparr>ptrace_script = [p_fail EPERM, p_ok], wait_script = []\<rparr>\<rparr>"]
    shim_is_stateless_forwarding
    [of replay 1234 "\<lparr>errno = 4, mem = (\<lambda>a. 7), calls = [Waitpid 77 4096 0],
          kern = \<lparr>ptrace_script = [p_fail EPERM, p_ok], wait_script = []\<rparr>\<rparr>" 0 4096 0
        replay "world0 [p_fail EPERM] []"]
  by (simp add: replay_simps)

subsection \<open>A wait that finds nothing\<close>

text \<open>
  Claim C8. When \<^verbatim>\<open>dbg_wait\<close> is called with \<^verbatim>\<open>WNOHANG\<close> in the flags and no child has
  changed state, \<^verbatim>\<open>waitpid\<close> returns 0 and so does \<^verbatim>\<open>dbg_wait\<close>. The value 0 is on the
  success side of the sign convention (it is non-negative); it comes with no event, the
  caller's memory being as it was when the operating system stores no status; and it
  differs from every error return, which is strictly negative.
\<close>

theorem dbg_wait_nohang_returns_zero:
  "(fst (waitpid os pid status flags w) = 0 \<longrightarrow>
      fst (dbg_wait os pid status flags w) = 0 \<and>
      0 \<le>s fst (dbg_wait os pid status flags w)) \<and>
   (w_status (fst (on_waitpid os pid status flags (kern w))) = None \<longrightarrow>
      mem (snd (dbg_wait os pid status flags w)) = mem w) \<and>
   (fst (waitpid os pid status flags w) = - 1 \<and>
    0 <s errno (snd (waitpid os pid status flags w)) \<longrightarrow>
      fst (dbg_wait os pid status flags w) <s 0 \<and>
      fst (dbg_wait os pid status flags w) \<noteq> 0)"
  by (auto simp: dbg_wait_eq waitpid_mem neg_errno_sless dest: pos_errno_nonzero)

theorem dbg_wait_nohang_returns_zero_witness:
  "fst (waitpid replay 1234 4096 WNOHANG (world0 [] [w_nochange])) = 0 \<and>
   w_status (fst (on_waitpid replay 1234 4096 WNOHANG (kern (world0 [] [w_nochange])))) = None \<and>
   fst (dbg_wait replay 1234 4096 WNOHANG (world0 [] [w_nochange])) = 0 \<and>
   mem (snd (dbg_wait replay 1234 4096 WNOHANG (world0 [] [w_nochange]))) 4096 = 0 \<and>
   fst (waitpid replay 1234 4096 WNOHANG (world0 [] [w_fail ECHILD])) = - 1 \<and>
   0 <s errno (snd (waitpid replay 1234 4096 WNOHANG (world0 [] [w_fail ECHILD]))) \<and>
   fst (dbg_wait replay 1234 4096 WNOHANG (world0 [] [w_fail ECHILD])) <s 0 \<and>
   fst (dbg_wait replay 1234 4096 WNOHANG (world0 [] [w_fail ECHILD])) \<noteq> 0"
  using dbg_wait_nohang_returns_zero [of replay 1234 4096 WNOHANG "world0 [] [w_nochange]"]
    dbg_wait_nohang_returns_zero [of replay 1234 4096 WNOHANG "world0 [] [w_fail ECHILD]"]
  by (simp add: replay_simps word_sless_alt)

subsection \<open>The signal of a continue\<close>

text \<open>
  Claim C9. \<^verbatim>\<open>dbg_continue\<close> passes the caller's signal number on as it is: for every
  \<^verbatim>\<open>int sig\<close>, zero, negative or beyond the range of signal numbers, the one call made
  is \<^verbatim>\<open>ptrace(PTRACE_CONT, pid, NULL, data)\<close> with \<open>data\<close> the sign-extended \<open>sig\<close>,
  whose value as a signed number is the value of \<open>sig\<close>. That call reaches the
  operating system with this argument: the world after \<^verbatim>\<open>dbg_continue\<close>, the state of the
  operating system in it, is what the call with this argument left. No value of \<open>sig\<close>
  is rejected or changed by the shim.
\<close>

theorem dbg_continue_forwards_signal:
  "snd (dbg_continue os pid sig w) = snd (ptrace os PTRACE_CONT pid NULL (scast sig) w) \<and>
   kern (snd (dbg_continue os pid sig w)) =
     snd (on_ptrace os PTRACE_CONT pid NULL (scast sig) (kern w)) \<and>
   calls (snd (dbg_continue os pid sig w)) =
     calls w @ [Ptrace PTRACE_CONT pid NULL (scast sig)] \<and>
   sint (scast sig :: ptr) = sint sig \<and>
   ((scast sig :: ptr) = 0 \<longleftrightarrow> sig = 0)"
proof -
  have val: "sint (scast sig :: ptr) = sint sig"
    by (simp add: sint_up_scast is_up)
  have "(scast sig :: ptr) = 0 \<longleftrightarrow> sig = 0"
  proof
    assume "(scast sig :: ptr) = 0"
    then have "sint sig = 0" using val by simp
    then show "sig = 0" by (simp add: signed_eq_0_iff)
  next
    assume "sig = 0"
    then show "(scast sig :: ptr) = 0" by simp
  qed
  moreover have "kern (snd (ptrace os PTRACE_CONT pid NULL (scast sig) w)) =
      snd (on_ptrace os PTRACE_CONT pid NULL (scast sig) (kern w))"
    by (simp add: ptrace_def split: prod.splits)
  ultimately show ?thesis
    using val by (simp add: dbg_continue_eq ptrace_calls)
qed

theorem dbg_continue_forwards_signal_witness:
  "ptrace_script (kern (snd (dbg_continue replay 1234 (- 5) (world0 [p_ok, p_fail ESRCH] [])))) =
     [p_fail ESRCH] \<and>
   calls (snd (dbg_continue replay 1234 0 (world0 [p_ok] []))) =
     [Ptrace PTRACE_CONT 1234 NULL 0] \<and>
   calls (snd (dbg_continue replay 1234 (- 5) (world0 [p_ok] []))) =
     [Ptrace PTRACE_CONT 1234 NULL (- 5)] \<and>
   calls (snd (dbg_continue replay 1234 100000 (world0 [p_ok] []))) =
     [Ptrace PTRACE_CONT 1234 NULL 100000]"
  using dbg_continue_forwards_signal [of replay 1234 0 "world0 [p_ok] []"]
    dbg_continue_forwards_signal [of replay 1234 "- 5" "world0 [p_ok] []"]
    dbg_continue_forwards_signal [of replay 1234 100000 "world0 [p_ok] []"]
    dbg_continue_forwards_signal [of replay 1234 "- 5" "world0 [p_ok, p_fail ESRCH] []"]
  by (simp add: replay_simps)

subsection \<open>The status cell on the error path\<close>

text \<open>
  Claim C10. When \<^verbatim>\<open>dbg_wait\<close> returns an error (\<^verbatim>\<open>waitpid\<close> returned -1), the shim has
  written nothing through the \<^verbatim>\<open>status\<close> pointer: memory is as \<^verbatim>\<open>waitpid\<close> left it, and
  when the operating system stored no status, the caller's variable, like every other
  cell, holds what it held before the call.
\<close>

theorem dbg_wait_error_keeps_status:
  "(fst (waitpid os pid status flags w) = - 1 \<longrightarrow>
      mem (snd (dbg_wait os pid status flags w)) = mem (snd (waitpid os pid status flags w))) \<and>
   (fst (waitpid os pid status flags w) = - 1 \<and>
    w_status (fst (on_waitpid os pid status flags (kern w))) = None \<longrightarrow>
      mem (snd (dbg_wait os pid status flags w)) = mem w \<and>
      mem (snd (dbg_wait os pid status flags w)) status = mem w status)"
  by (simp add: dbg_wait_eq waitpid_mem)

theorem dbg_wait_error_keeps_status_witness:
  "fst (waitpid replay 1234 4096 0 (world0 [] [w_fail ECHILD])) = - 1 \<and>
   w_status (fst (on_waitpid replay 1234 4096 0 (kern (world0 [] [w_fail ECHILD])))) = None \<and>
   fst (dbg_wait replay 1234 4096 0 (world0 [] [w_fail ECHILD])) = - ECHILD \<and>
   mem (snd (dbg_wait replay 1234 4096 0 (world0 [] [w_fail ECHILD]))) 4096 =
     mem (world0 [] [w_fail ECHILD]) 4096"
  using dbg_wait_error_keeps_status [of replay 1234 4096 0 "world0 [] [w_fail ECHILD]"]
  by (simp add: replay_simps dbg_wait_eq)

subsection \<open>The controller's wait\<close>

lemma waitForChange_wait_not_eintr:
  assumes "waitForChange_wait os h blocking status w = Some y"
  shows "fst y \<noteq> Inl (- EINTR)"
  by (rule waitForChange_wait.raw_induct
        [where P = "\<lambda>os h blocking status w y. fst y \<noteq> Inl (- EINTR)", OF _ assms])
     (auto split: prod.splits if_splits)

lemma waitForChange_wait_step:
  assumes "fst (wait_once os h blocking status w) = - EINTR"
  shows "waitForChange_wait os h blocking status w =
         waitForChange_wait os h blocking status (snd (wait_once os h blocking status w))"
  using assms by (subst waitForChange_wait.simps) (auto split: prod.splits)

lemma waitForChange_wait_stop:
  assumes "fst (wait_once os h blocking status w) \<noteq> - EINTR"
  shows "waitForChange_wait os h blocking status w =
         Some (if fst (wait_once os h blocking status w) <s 0
               then Inl (fst (wait_once os h blocking status w))
               else Inr (fst (wait_once os h blocking status w)),
               snd (wait_once os h blocking status w))"
  using assms by (subst waitForChange_wait.simps) (auto split: prod.splits)

lemma waitForChange_wait_after:
  assumes "\<forall>i<n. fst (wait_once os h blocking status
                    (((\<lambda>v. snd (wait_once os h blocking status v)) ^^ i) w)) = - EINTR"
      and "fst (wait_once os h blocking status
                 (((\<lambda>v. snd (wait_once os h blocking status v)) ^^ n) w)) \<noteq> - EINTR"
  shows "waitForChange_wait os h blocking status w =
         waitForChange_wait os h blocking status
           (((\<lambda>v. snd (wait_once os h blocking status v)) ^^ n) w)"
  using assms
proof (induction n arbitrary: w)
  case 0
  then show ?case by simp
next
  case (Suc n)
  let ?S = "\<lambda>v. snd (wait_once os h blocking status v)"
  from Suc.prems(1) have first: "fst (wait_once os h blocking status w) = - EINTR"
    by (metis funpow_0 zero_less_Suc)
  have rest: "\<forall>i<n. fst (wait_once os h blocking status ((?S ^^ i) (?S w))) = - EINTR"
  proof (intro allI impI)
    fix i assume "i < n"
    then have "Suc i < Suc n" by simp
    from Suc.prems(1)[rule_format, OF this]
    show "fst (wait_once os h blocking status ((?S ^^ i) (?S w))) = - EINTR"
      by (simp add: funpow_Suc_right del: funpow.simps)
  qed
  have last: "fst (wait_once os h blocking status ((?S ^^ n) (?S w))) \<noteq> - EINTR"
    using Suc.prems(2) by (simp add: funpow_Suc_right del: funpow.simps)
  have "waitForChange_wait os h blocking status w =
        waitForChange_wait os h blocking status (?S w)"
    using first by (rule waitForChange_wait_step)
  also have "\<dots> = waitForChange_wait os h blocking status ((?S ^^ n) (?S w))"
    using rest last by (rule Suc.IH)
  finally show ?case by (simp add: funpow_Suc_right del: funpow.simps)
qed

lemma wait_once_calls_funpow:
  "calls (((\<lambda>v. snd (wait_once os h blocking status v)) ^^ n) w) =
     calls w @ replicate n (Waitpid (h_pid h) status (if blocking then 0 else WNOHANG))"
proof (induction n)
  case 0
  then show ?case by simp
next
  case (Suc n)
  then show ?case
    by (simp add: dbg_wait_eq waitpid_calls replicate_append_same)
qed

text \<open>
  Claim C2. A wait that the operating system interrupts with \<^verbatim>\<open>EINTR\<close> is retried by the
  controller's wait, and \<^verbatim>\<open>EINTR\<close> never reaches the caller: whenever the wait returns, its
  result is not the error \<^verbatim>\<open>-EINTR\<close>; and when the first \<open>n\<close> calls of the wait primitive
  are interrupted and the next one is not, the wait does return, with the outcome of that
  call, after \<open>n + 1\<close> calls of the primitive. Every other error of the wait primitive is
  returned without a retry, after the one call that reported it.
\<close>

theorem waitForChange_retries_eintr:
  "(waitForChange_wait os h blocking status w = Some y \<longrightarrow> fst y \<noteq> Inl (- EINTR)) \<and>
   ((\<forall>i<n. fst (wait_once os h blocking status
               (((\<lambda>v. snd (wait_once os h blocking status v)) ^^ i) w)) = - EINTR) \<and>
    fst (wait_once os h blocking status
          (((\<lambda>v. snd (wait_once os h blocking status v)) ^^ n) w)) \<noteq> - EINTR \<longrightarrow>
      waitForChange_wait os h blocking status w =
        Some (if fst (wait_once os h blocking status
                       (((\<lambda>v. snd (wait_once os h blocking status v)) ^^ n) w)) <s 0
              then Inl (fst (wait_once os h blocking status
                       (((\<lambda>v. snd (wait_once os h blocking status v)) ^^ n) w)))
              else Inr (fst (wait_once os h blocking status
                       (((\<lambda>v. snd (wait_once os h blocking status v)) ^^ n) w))),
              snd (wait_once os h blocking status
                       (((\<lambda>v. snd (wait_once os h blocking status v)) ^^ n) w))) \<and>
      calls (snd (wait_once os h blocking status
                       (((\<lambda>v. snd (wait_once os h blocking status v)) ^^ n) w))) =
        calls w @ replicate (Suc n) (Waitpid (h_pid h) status (if blocking then 0 else WNOHANG))) \<and>
   (fst (wait_once os h blocking status w) \<noteq> - EINTR \<and>
    fst (wait_once os h blocking status w) <s 0 \<longrightarrow>
      waitForChange_wait os h blocking status w =
        Some (Inl (fst (wait_once os h blocking status w)),
              snd (wait_once os h blocking status w)) \<and>
      calls (snd (wait_once os h blocking status w)) =
        calls w @ [Waitpid (h_pid h) status (if blocking then 0 else WNOHANG)])"
proof (intro conjI impI)
  assume "waitForChange_wait os h blocking status w = Some y"
  then show "fst y \<noteq> Inl (- EINTR)" by (rule waitForChange_wait_not_eintr)
next
  let ?S = "\<lambda>v. snd (wait_once os h blocking status v)"
  assume a: "(\<forall>i<n. fst (wait_once os h blocking status ((?S ^^ i) w)) = - EINTR) \<and>
    fst (wait_once os h blocking status ((?S ^^ n) w)) \<noteq> - EINTR"
  then have "waitForChange_wait os h blocking status w =
             waitForChange_wait os h blocking status ((?S ^^ n) w)"
    by (intro waitForChange_wait_after) auto
  also have "\<dots> = Some (if fst (wait_once os h blocking status ((?S ^^ n) w)) <s 0
              then Inl (fst (wait_once os h blocking status ((?S ^^ n) w)))
              else Inr (fst (wait_once os h blocking status ((?S ^^ n) w))),
              snd (wait_once os h blocking status ((?S ^^ n) w)))"
    using a by (intro waitForChange_wait_stop) auto
  finally show "waitForChange_wait os h blocking status w =
        Some (if fst (wait_once os h blocking status ((?S ^^ n) w)) <s 0
              then Inl (fst (wait_once os h blocking status ((?S ^^ n) w)))
              else Inr (fst (wait_once os h blocking status ((?S ^^ n) w))),
              snd (wait_once os h blocking status ((?S ^^ n) w)))" .
  have "calls (?S ((?S ^^ n) w)) =
        calls w @ replicate (Suc n) (Waitpid (h_pid h) status (if blocking then 0 else WNOHANG))"
    using wait_once_calls_funpow [where n = "Suc n" and w = w and os = os and h = h] by simp
  then show "calls (snd (wait_once os h blocking status ((?S ^^ n) w))) =
        calls w @ replicate (Suc n) (Waitpid (h_pid h) status (if blocking then 0 else WNOHANG))" .
next
  assume a: "fst (wait_once os h blocking status w) \<noteq> - EINTR \<and>
    fst (wait_once os h blocking status w) <s 0"
  then show "waitForChange_wait os h blocking status w =
        Some (Inl (fst (wait_once os h blocking status w)),
              snd (wait_once os h blocking status w))"
    by (simp add: waitForChange_wait_stop)
  show "calls (snd (wait_once os h blocking status w)) =
        calls w @ [Waitpid (h_pid h) status (if blocking then 0 else WNOHANG)]"
    by (simp add: dbg_wait_eq waitpid_calls)
qed

theorem waitForChange_retries_eintr_witness:
  "fst (wait_once replay \<lparr>h_pid = 1234, h_state = Running\<rparr> True 4096
     (world0 [] [w_fail EINTR, w_fail EINTR, w_changed 1234 1407])) = - EINTR \<and>
   fst (wait_once replay \<lparr>h_pid = 1234, h_state = Running\<rparr> True 4096
     (snd (wait_once replay \<lparr>h_pid = 1234, h_state = Running\<rparr> True 4096
       (world0 [] [w_fail EINTR, w_fail EINTR, w_changed 1234 1407])))) = - EINTR \<and>
   fst (wait_once replay \<lparr>h_pid = 1234, h_state = Running\<rparr> True 4096
     (snd (wait_once replay \<lparr>h_pid = 1234, h_state = Running\<rparr> True 4096
       (snd (wait_once replay \<lparr>h_pid = 1234, h_state = Running\<rparr> True 4096
         (world0 [] [w_fail EINTR, w_fail EINTR, w_changed 1234 1407])))))) = 1234 \<and>
   waitForChange_wait replay \<lparr>h_pid = 1234, h_state = Running\<rparr> True 4096
     (world0 [] [w_fail EINTR, w_fail EINTR, w_changed 1234 1407]) \<noteq> None \<and>
   fst (the (waitForChange_wait replay \<lparr>h_pid = 1234, h_state = Running\<rparr> True 4096
     (world0 [] [w_fail EINTR, w_fail EINTR, w_changed 1234 1407]))) = Inr 1234 \<and>
   calls (snd (the (waitForChange_wait replay \<lparr>h_pid = 1234, h_state = Running\<rparr> True 4096
     (world0 [] [w_fail EINTR, w_fail EINTR, w_changed 1234 1407])))) =
     [Waitpid 1234 4096 0, Waitpid 1234 4096 0, Waitpid 1234 4096 0] \<and>
   mem (snd (the (waitForChange_wait replay \<lparr>h_pid = 1234, h_state = Running\<rparr> True 4096
     (world0 [] [w_fail EINTR, w_fail EINTR, w_changed 1234 1407])))) 4096 = 1407 \<and>
   fst (wait_once replay \<lparr>h_pid = 1234, h_state = Running\<rparr> True 4096
     (world0 [] [w_fail ECHILD, w_changed 1234 1407])) <s 0 \<and>
   fst (the (waitForChange_wait replay \<lparr>h_pid = 1234, h_state = Running\<rparr> True 4096
     (world0 [] [w_fail ECHILD, w_changed 1234 1407]))) = Inl (- ECHILD) \<and>
   calls (snd (the (waitForChange_wait replay \<lparr>h_pid = 1234, h_state = Running\<rparr> True 4096
     (world0 [] [w_fail ECHILD, w_changed 1234 1407])))) = [Waitpid 1234 4096 0]"
  using waitForChange_retries_eintr
          [of replay "\<lparr>h_pid = 1234, h_state = Running\<rparr>" True 4096
              "world0 [] [w_fail EINTR, w_fail EINTR, w_changed 1234 1407]" _ "Suc (Suc 0)"]
        waitForChange_retries_eintr
          [of replay "\<lparr>h_pid = 1234, h_state = Running\<rparr>" True 4096
              "world0 [] [w_fail ECHILD, w_changed 1234 1407]" _ 0]
  by (simp add: dbg_wait_def replay_simps All_less_Suc word_sless_alt)

subsection \<open>The controller's detach\<close>



subsection \<open>The controller's resume\<close>

text \<open>
  Claim C4. On a handle whose state is \<open>Detached\<close> or \<open>Exited\<close>, resume fails, with
  \<open>InvalidState\<close> or \<open>AlreadyTerminated\<close>, and the continue primitive of the operating
  system is not invoked: the world, with its sequence of system calls and the state of
  the operating system, is as before. Resume is valid only from \<open>Stopped\<close>: in every other
  state it fails with one of the two errors and changes nothing, so a resume that
  succeeded was started from \<open>Stopped\<close>; and from \<open>Stopped\<close> the continue is issued
  through the shim, and its success makes the handle \<open>Running\<close>.
\<close>

theorem resume_refused_unless_stopped:
  "(h_state h = Detached \<longrightarrow> resume os h sig w = (Inl InvalidState, h, w)) \<and>
   (h_state h = Exited code \<longrightarrow> resume os h sig w = (Inl AlreadyTerminated, h, w)) \<and>
   (h_state h = Detached \<or> h_state h = Exited code \<longrightarrow>
      calls (snd (snd (resume os h sig w))) = calls w \<and>
      kern (snd (snd (resume os h sig w))) = kern w) \<and>
   ((\<forall>reason. h_state h \<noteq> Stopped reason) \<longrightarrow>
      (fst (resume os h sig w) = Inl InvalidState \<or>
       fst (resume os h sig w) = Inl AlreadyTerminated) \<and>
      snd (resume os h sig w) = (h, w)) \<and>
   (fst (resume os h sig w) = Inr () \<longrightarrow> (\<exists>reason. h_state h = Stopped reason)) \<and>
   (h_state h = Stopped reason \<longrightarrow>
      snd (snd (resume os h sig w)) = snd (dbg_continue os (h_pid h) sig w) \<and>
      (fst (dbg_continue os (h_pid h) sig w) = 0 \<longrightarrow>
         fst (resume os h sig w) = Inr () \<and>
         fst (snd (resume os h sig w)) = h\<lparr>h_state := Running\<rparr>))"
  by (cases "h_state h") (auto simp: resume_def split: prod.splits)

theorem resume_refused_unless_stopped_witness:
  "resume replay \<lparr>h_pid = 1234, h_state = Detached\<rparr> 0 (world0 [p_ok] []) =
     (Inl InvalidState, \<lparr>h_pid = 1234, h_state = Detached\<rparr>, world0 [p_ok] []) \<and>
   resume replay \<lparr>h_pid = 1234, h_state = Exited 0\<rparr> 0 (world0 [p_ok] []) =
     (Inl AlreadyTerminated, \<lparr>h_pid = 1234, h_state = Exited 0\<rparr>, world0 [p_ok] []) \<and>
   calls (snd (snd (resume replay \<lparr>h_pid = 1234, h_state = Detached\<rparr> 0 (world0 [p_ok] [])))) = [] \<and>
   fst (dbg_continue replay 1234 0 (world0 [p_ok] [])) = 0 \<and>
   fst (resume replay \<lparr>h_pid = 1234, h_state = Stopped Interrupt\<rparr> 0 (world0 [p_ok] [])) = Inr () \<and>
   h_state (fst (snd (resume replay \<lparr>h_pid = 1234, h_state = Stopped Interrupt\<rparr> 0
     (world0 [p_ok] [])))) = Running \<and>
   calls (snd (snd (resume replay \<lparr>h_pid = 1234, h_state = Stopped Interrupt\<rparr> 0
     (world0 [p_ok] [])))) = [Ptrace PTRACE_CONT 1234 NULL 0]"
  using resume_refused_unless_stopped
          [of "\<lparr>h_pid = 1234, h_state = Detached\<rparr>" replay 0 "world0 [p_ok] []" 0 Interrupt]
        resume_refused_unless_stopped
          [of "\<lparr>h_pid = 1234, h_state = Exited 0\<rparr>" replay 0 "world0 [p_ok] []" 0 Interrupt]
        resume_refused_unless_stopped
          [of "\<lparr>h_pid = 1234, h_state = Stopped Interrupt\<rparr>" replay 0 "world0 [p_ok] []" 0 Interrupt]
  by (simp add: dbg_continue_def replay_simps)

end
